theory Spec2Isabelle
  imports Complex_Main
begin

section \<open>Common values\<close>

text \<open>
  A DOM node is identified by a number (node identity); \<open>querySelectorAll\<close> returns
  each matched node once, so a node list is addressed by position.
\<close>

type_synonym element = nat

datatype error = TypeError | IndexSizeError

text \<open>
  What the platform does with a call of \<open>HTMLMediaElement.play()\<close>; every handler that
  calls \<open>play()\<close> takes it as an input.
  \<^item> \<open>Fulfilled\<close>: the call is accepted, which clears \<open>paused\<close> at once, and the promise
    is fulfilled later.
  \<^item> \<open>Rejected\<close>: the call is refused and returns a promise that is already rejected (the
    element is not allowed to play); \<open>paused\<close> is not touched.
  \<^item> \<open>Failed\<close>: the call is accepted, which clears \<open>paused\<close> at once, and the promise
    is rejected later (the source fails to load, or a \<open>pause()\<close> aborts the request; that
    \<open>pause()\<close> is a call of its own and sets \<open>paused\<close> where it occurs).
\<close>

datatype outcome = Fulfilled | Rejected | Failed

section \<open>Scroll navigation (script.js, lines 17-61)\<close>

text \<open>
  The closure variables of the navigation block. \<open>nextBtn\<close> and \<open>prevBtn\<close> say whether
  \<open>getElementById\<close> found the button; \<open>obs\<close> is \<open>None\<close> for \<open>null\<close> and otherwise
  holds the observed nodes; \<open>scrolled\<close> lists the nodes on which \<open>scrollIntoView\<close>
  was called, oldest first; \<open>console\<close> lists the messages given to \<open>console.warn\<close>.
  \<open>currentIndex\<close> only ever holds integers (0, an \<open>indexOf\<close> result, or a clamped
  index), so it is an \<open>int\<close>. The \<open>console.warn\<close> of line 44 is the only use of the
  console in the script.
\<close>

record nav =
  sections :: "element list"
  nextBtn :: bool
  prevBtn :: bool
  currentIndex :: int
  obs :: "element list option"
  scrolled :: "element list"
  console :: "string list"

definition init_nav :: "element list \<Rightarrow> bool \<Rightarrow> bool \<Rightarrow> nav" where
  "init_nav secs nb pb =
     (let s0 = \<lparr>sections = secs, nextBtn = nb, prevBtn = pb, currentIndex = 0,
                obs = None, scrolled = [], console = []\<rparr>
      in if secs \<noteq> [] then s0\<lparr>obs := Some secs\<rparr>
         else s0\<lparr>console := console s0 @ [''No .section elements found.'']\<rparr>)"

text \<open>
  \<open>goTo\<close>, lines 47-53. \<open>sections[index].scrollIntoView(...)\<close> throws a TypeError when
  \<open>sections[index]\<close> is \<open>undefined\<close>; that is the \<open>Inl\<close> branch.
\<close>

definition goTo :: "int \<Rightarrow> nav \<Rightarrow> error + nav" where
  "goTo index s =
     (if sections s = [] then Inr s
      else
        let index1 = (if index < 0 then 0 else index);
            index2 = (if index1 \<ge> int (length (sections s))
                      then int (length (sections s)) - 1 else index1)
        in if 0 \<le> index2 \<and> index2 < int (length (sections s))
           then Inr (s\<lparr>scrolled := scrolled s @ [sections s ! nat index2],
                       currentIndex := index2\<rparr>)
           else Inl TypeError)"

text \<open>The \<open>keydown\<close> listener, lines 58-61: two \<open>if\<close> statements in sequence.\<close>

definition keydown :: "string \<Rightarrow> nav \<Rightarrow> error + nav" where
  "keydown key s =
     (case (if key = ''ArrowDown'' \<or> key = ''PageDown''
            then goTo (currentIndex s + 1) s else Inr s) of
        Inl e \<Rightarrow> Inl e
      | Inr s1 \<Rightarrow>
          (if key = ''ArrowUp'' \<or> key = ''PageUp''
           then goTo (currentIndex s1 - 1) s1 else Inr s1))"

datatype nav_event = ClickNext | ClickPrev | KeyDown string

text \<open>
  A click listener exists only on a button that was found (lines 55-56); the \<open>keydown\<close>
  listener is on \<open>window\<close>.
\<close>

fun nav_dispatch :: "nav_event \<Rightarrow> nav \<Rightarrow> error + nav" where
  "nav_dispatch ClickNext s = (if nextBtn s then goTo (currentIndex s + 1) s else Inr s)"
| "nav_dispatch ClickPrev s = (if prevBtn s then goTo (currentIndex s - 1) s else Inr s)"
| "nav_dispatch (KeyDown key) s = keydown key s"

text \<open>A sequence of navigation events; the run stops at the first exception.\<close>

fun nav_run :: "nav_event list \<Rightarrow> nav \<Rightarrow> error + nav" where
  "nav_run [] s = Inr s"
| "nav_run (ev # evs) s =
     (case nav_dispatch ev s of Inl e \<Rightarrow> Inl e | Inr s1 \<Rightarrow> nav_run evs s1)"

text \<open>
  The callback of the section observer, lines 31-38: every intersecting entry whose target
  is a tracked section sets \<open>currentIndex\<close> to that section's position. An entry is the
  target node and its \<open>isIntersecting\<close> flag.
\<close>

fun indexOf :: "element list \<Rightarrow> element \<Rightarrow> int" where
  "indexOf [] x = - 1"
| "indexOf (y # ys) x =
     (if y = x then 0 else (let r = indexOf ys x in if r < 0 then - 1 else r + 1))"

fun sectionIO :: "(element \<times> bool) list \<Rightarrow> nav \<Rightarrow> nav" where
  "sectionIO [] s = s"
| "sectionIO ((tgt, isIntersecting) # entries) s =
     sectionIO entries
       (if isIntersecting
        then (let idx = indexOf (sections s) tgt
              in if idx \<ge> 0 then s\<lparr>currentIndex := idx\<rparr> else s)
        else s)"

text \<open>The clamp of the specification: \<open>index\<close> clamped to \<open>[0, sectionCount - 1]\<close>.\<close>

definition spec_clamp :: "nat \<Rightarrow> int \<Rightarrow> int" where
  "spec_clamp sectionCount index = min (max index 0) (int sectionCount - 1)"

section \<open>JavaScript numbers as far as the handlers compare them\<close>

text \<open>
  A JavaScript number is an IEEE-754 double: NaN, an infinity, or a finite value. Every
  finite double is a rational number, and the operations used on such values in the
  modelled handlers (\<open>Math.min\<close>, \<open>Math.max\<close>, the comparison \<open>>\<close>, \<open>Number.isNaN\<close>)
  return one of their arguments or a truth value without rounding, so a finite double is
  modelled by the rational it denotes. The sign of zero is not modelled.
\<close>

datatype jsnum = NaN | NegInf | Fin rat | PosInf

fun js_le :: "jsnum \<Rightarrow> jsnum \<Rightarrow> bool" where
  "js_le NaN b = False"
| "js_le a NaN = False"
| "js_le NegInf b = True"
| "js_le a PosInf = True"
| "js_le (Fin x) (Fin y) = (x \<le> y)"
| "js_le PosInf b = False"
| "js_le a NegInf = False"

definition Number_isNaN :: "jsnum \<Rightarrow> bool" where
  "Number_isNaN v = (v = NaN)"

definition Math_max :: "jsnum \<Rightarrow> jsnum \<Rightarrow> jsnum" where
  "Math_max a b = (if a = NaN \<or> b = NaN then NaN else if js_le a b then b else a)"

definition Math_min :: "jsnum \<Rightarrow> jsnum \<Rightarrow> jsnum" where
  "Math_min a b = (if a = NaN \<or> b = NaN then NaN else if js_le a b then a else b)"

section \<open>Background audio (script.js, lines 63-126)\<close>

text \<open>
  The \<open>#bgAudio\<close> element: its \<open>volume\<close> and \<open>paused\<close> attributes, and how often
  \<open>play()\<close> and \<open>pause()\<close> have been called on it.
\<close>

record audio_el =
  volume :: rat
  a_paused :: bool
  a_playCalls :: nat
  a_pauseCalls :: nat

text \<open>
  Platform behaviour of the element. An accepted \<open>play()\<close> clears \<open>paused\<close> during the
  call, whatever becomes of its promise; a refused one leaves \<open>paused\<close> as it was.
  \<open>pause()\<close> sets \<open>paused\<close>. The \<open>volume\<close> setter throws a TypeError for a value that
  is not finite and an IndexSizeError for one outside \<open>[0, 1]\<close>.
\<close>

definition a_play :: "outcome \<Rightarrow> audio_el \<Rightarrow> audio_el" where
  "a_play oc a =
     (let a1 = a\<lparr>a_playCalls := Suc (a_playCalls a)\<rparr>
      in case oc of
           Fulfilled \<Rightarrow> a1\<lparr>a_paused := False\<rparr>
         | Rejected \<Rightarrow> a1
         | Failed \<Rightarrow> a1\<lparr>a_paused := False\<rparr>)"

definition a_pause :: "audio_el \<Rightarrow> audio_el" where
  "a_pause a = a\<lparr>a_paused := True, a_pauseCalls := Suc (a_pauseCalls a)\<rparr>"

fun set_volume :: "jsnum \<Rightarrow> audio_el \<Rightarrow> error + audio_el" where
  "set_volume (Fin x) a =
     (if 0 \<le> x \<and> x \<le> 1 then Inr (a\<lparr>volume := x\<rparr>) else Inl IndexSizeError)"
| "set_volume v a = Inl TypeError"

text \<open>
  The glyphs written to the toggle's \<open>textContent\<close>, as the UTF-8 bytes of the source
  literals: U+1F3B5 (musical note) and U+23F8 (pause).
\<close>

definition glyph_note :: string where
  "glyph_note = [CHR 0xF0, CHR 0x9F, CHR 0x8E, CHR 0xB5]"

definition glyph_pause :: string where
  "glyph_pause = [CHR 0xE2, CHR 0x8F, CHR 0xB8]"

text \<open>
  The closure variables of the audio block. \<open>audio\<close> is \<open>None\<close> when \<open>#bgAudio\<close> is
  missing; \<open>audioPlayBtn\<close> holds the button's \<open>style.display\<close> and \<open>musicToggle\<close> the
  toggle's \<open>textContent\<close>, each \<open>None\<close> when the element is missing. \<open>clickOnce\<close> and
  \<open>touchOnce\<close> say whether the \<open>once\<close> listener for \<open>click\<close>, respectively
  \<open>touchstart\<close>, is still registered on the document.
\<close>

record actl =
  audio :: "audio_el option"
  audioPlayBtn :: "string option"
  musicToggle :: "string option"
  volumeSlider :: bool
  musicPlaying :: bool
  clickOnce :: bool
  touchOnce :: bool

text \<open>
  Lines 64-65 and 95-96: the volume is set to 0.5 (a value the setter accepts), the flag
  is cleared and both \<open>once\<close> listeners are registered. The arguments are the elements
  as found in the document.
\<close>

definition init_actl ::
  "audio_el option \<Rightarrow> string option \<Rightarrow> string option \<Rightarrow> bool \<Rightarrow> actl" where
  "init_actl au btn tog slider =
     \<lparr>audio = map_option (\<lambda>a. a\<lparr>volume := 1 / 2\<rparr>) au,
      audioPlayBtn = btn, musicToggle = tog, volumeSlider = slider,
      musicPlaying = False, clickOnce = True, touchOnce = True\<rparr>"

text \<open>
  The two callbacks that \<open>tryAutoplayAudio\<close> attaches to the play promise: the \<open>then\<close>
  callback of lines 71-75 and the \<open>catch\<close> callback of lines 76-78. The platform runs one
  of them when the promise is settled, which for an accepted call is after the listener
  that called \<open>play()\<close>, and every listener of the same event, have returned.
\<close>

definition tryAutoplayAudio_then :: "actl \<Rightarrow> actl" where
  "tryAutoplayAudio_then s =
     s\<lparr>musicPlaying := True,
       audioPlayBtn := map_option (\<lambda>_. ''none'') (audioPlayBtn s),
       musicToggle := map_option (\<lambda>_. glyph_pause) (musicToggle s)\<rparr>"

definition tryAutoplayAudio_catch :: "actl \<Rightarrow> actl" where
  "tryAutoplayAudio_catch s =
     s\<lparr>audioPlayBtn := map_option (\<lambda>_. ''inline-block'') (audioPlayBtn s)\<rparr>"

definition tryAutoplayAudio_settle :: "outcome \<Rightarrow> actl \<Rightarrow> actl" where
  "tryAutoplayAudio_settle oc s =
     (case oc of
        Fulfilled \<Rightarrow> tryAutoplayAudio_then s
      | Rejected \<Rightarrow> tryAutoplayAudio_catch s
      | Failed \<Rightarrow> tryAutoplayAudio_catch s)"

text \<open>
  \<open>tryAutoplayAudio\<close>, lines 67-79: the call of \<open>play()\<close> together with the callback
  that the settlement of its promise runs, when nothing else runs in between.
\<close>

definition tryAutoplayAudio :: "outcome \<Rightarrow> actl \<Rightarrow> actl" where
  "tryAutoplayAudio oc s =
     (case audio s of
        None \<Rightarrow> s
      | Some a \<Rightarrow> tryAutoplayAudio_settle oc (s\<lparr>audio := Some (a_play oc a)\<rparr>))"

text \<open>
  The click listener of \<open>#audioPlayBtn\<close>, lines 81-93; it exists only when the button
  was found.
\<close>

definition audioPlayBtn_click :: "outcome \<Rightarrow> actl \<Rightarrow> actl" where
  "audioPlayBtn_click oc s =
     (if audioPlayBtn s = None then s
      else case audio s of
        None \<Rightarrow> s
      | Some a \<Rightarrow>
          (let s1 = s\<lparr>audio := Some (a_play oc a)\<rparr>
           in case oc of
                Fulfilled \<Rightarrow>
                  s1\<lparr>musicPlaying := True,
                     audioPlayBtn := Some ''none'',
                     musicToggle := map_option (\<lambda>_. glyph_pause) (musicToggle s1)\<rparr>
              | Rejected \<Rightarrow> s1
              | Failed \<Rightarrow> s1))"

text \<open>
  Lines 95-96: the document has one \<open>once\<close> listener for \<open>click\<close> and one for
  \<open>touchstart\<close>, both calling \<open>tryAutoplayAudio\<close>. A \<open>once\<close> listener is removed when
  its event is dispatched, before the callback runs.
\<close>

datatype doc_event = Click | Touchstart

fun doc_dispatch :: "doc_event \<times> outcome \<Rightarrow> actl \<Rightarrow> actl" where
  "doc_dispatch (Click, oc) s =
     (if clickOnce s then tryAutoplayAudio oc (s\<lparr>clickOnce := False\<rparr>) else s)"
| "doc_dispatch (Touchstart, oc) s =
     (if touchOnce s then tryAutoplayAudio oc (s\<lparr>touchOnce := False\<rparr>) else s)"

fun doc_run :: "(doc_event \<times> outcome) list \<Rightarrow> actl \<Rightarrow> actl" where
  "doc_run [] s = s"
| "doc_run (ev # evs) s = doc_run evs (doc_dispatch ev s)"

definition playAttempts :: "actl \<Rightarrow> nat" where
  "playAttempts s = (case audio s of None \<Rightarrow> 0 | Some a \<Rightarrow> a_playCalls a)"

text \<open>
  The click listener of \<open>#musicToggle\<close>, lines 98-110. It exists only when the toggle
  was found; the outcome is that of the \<open>play()\<close> call of the \<open>else\<close> branch.
\<close>

definition musicToggle_click :: "outcome \<Rightarrow> actl \<Rightarrow> actl" where
  "musicToggle_click oc s =
     (if musicToggle s = None then s
      else case audio s of
        None \<Rightarrow> s
      | Some a \<Rightarrow>
          (let s1 = (if musicPlaying s
                     then s\<lparr>audio := Some (a_pause a), musicToggle := Some glyph_note\<rparr>
                     else s\<lparr>audio := Some (a_play oc a), musicToggle := Some glyph_pause\<rparr>)
           in s1\<lparr>musicPlaying := \<not> musicPlaying s1\<rparr>))"


text \<open>
  The \<open>input\<close> listener of \<open>#volumeSlider\<close>, lines 121-125. \<open>parseFloat\<close> is the
  platform's function from the slider's value string to a number.
\<close>

definition volume_input :: "(string \<Rightarrow> jsnum) \<Rightarrow> string \<Rightarrow> actl \<Rightarrow> error + actl" where
  "volume_input parseFloat val_str s =
     (if \<not> volumeSlider s then Inr s
      else case audio s of
        None \<Rightarrow> Inr s
      | Some a \<Rightarrow>
          (let val = parseFloat val_str
           in if \<not> Number_isNaN val
              then (case set_volume (Math_min (Fin 1) (Math_max (Fin 0) val)) a of
                      Inl e \<Rightarrow> Inl e
                    | Inr a1 \<Rightarrow> Inr (s\<lparr>audio := Some a1\<rparr>))
              else Inr s))"

text \<open>The clamp of the specification on finite values.\<close>

definition spec_clamp01 :: "rat \<Rightarrow> rat" where
  "spec_clamp01 v = min 1 (max 0 v)"

section \<open>Videos (script.js, lines 129-181)\<close>

text \<open>
  A tracked \<open>video.media-video\<close> element: its \<open>paused\<close> attribute, the
  \<open>style.display\<close> of the \<open>.play-overlay\<close> found in its parent (\<open>None\<close> when there
  is no parent or no overlay), and how often \<open>play()\<close> and \<open>pause()\<close> have been called on
  it. Each video is taken to have an overlay of its own. The element behaves as the audio
  element does: an accepted \<open>play()\<close> clears \<open>paused\<close> during the call, whatever
  becomes of its promise, a refused one leaves \<open>paused\<close> as it was, and \<open>pause()\<close> sets
  \<open>paused\<close>.
\<close>

record video =
  v_paused :: bool
  v_overlay :: "string option"
  v_playCalls :: nat
  v_pauseCalls :: nat

definition v_play :: "outcome \<Rightarrow> video \<Rightarrow> video" where
  "v_play oc v =
     (let v1 = v\<lparr>v_playCalls := Suc (v_playCalls v)\<rparr>
      in case oc of
           Fulfilled \<Rightarrow> v1\<lparr>v_paused := False\<rparr>
         | Rejected \<Rightarrow> v1
         | Failed \<Rightarrow> v1\<lparr>v_paused := False\<rparr>)"

definition v_pause :: "video \<Rightarrow> video" where
  "v_pause v = v\<lparr>v_paused := True, v_pauseCalls := Suc (v_pauseCalls v)\<rparr>"

text \<open>\<open>if (overlay) overlay.style.display = d\<close>.\<close>

definition set_overlay :: "string \<Rightarrow> video \<Rightarrow> video" where
  "set_overlay d v = v\<lparr>v_overlay := map_option (\<lambda>_. d) (v_overlay v)\<rparr>"

text \<open>
  The body of the \<open>videoIO\<close> callback for one entry, lines 134-149, on the entry's
  target: \<open>isIntersecting\<close> and \<open>intersectionRatio\<close> are the entry's fields, the outcome
  is that of the \<open>play()\<close> call, whose settlement runs the \<open>then\<close> callback (line 142)
  or the \<open>catch\<close> callback (line 145). The two callbacks write the overlay's display and
  nothing else, and no listener of the video block reads it, so running the callback with
  the call gives the state that running it at the settlement gives.
\<close>

definition videoIO_entry :: "outcome \<Rightarrow> bool \<Rightarrow> rat \<Rightarrow> video \<Rightarrow> video" where
  "videoIO_entry oc isIntersecting intersectionRatio v =
     (if isIntersecting \<and> intersectionRatio > 1 / 2
      then (let v1 = v_play oc v
            in case oc of
                 Fulfilled \<Rightarrow> set_overlay ''none'' v1
               | Rejected \<Rightarrow> set_overlay ''block'' v1
               | Failed \<Rightarrow> set_overlay ''block'' v1)
      else (if \<not> v_paused v then v_pause v else v))"

text \<open>
  The callback on a batch of entries, lines 132-151. An entry names its target by the
  target's position in \<open>videos\<close>; the observer reports observed nodes only, and an entry
  for any other position changes nothing.
\<close>

record entry =
  target :: nat
  isIntersecting :: bool
  intersectionRatio :: rat

fun videoIO :: "(entry \<times> outcome) list \<Rightarrow> video list \<Rightarrow> video list" where
  "videoIO [] videos = videos"
| "videoIO ((e, oc) # entries) videos =
     videoIO entries
       (if target e < length videos
        then videos[target e :=
               videoIO_entry oc (isIntersecting e) (intersectionRatio e) (videos ! target e)]
        else videos)"







section \<open>Media resizing (script.js, lines 186-202)\<close>

text \<open>
  The two style properties that \<open>resizeMedia\<close> writes on an element matching
  \<open>.media-img, .media-video\<close>. \<open>screenWidth\<close> is \<open>window.innerWidth\<close>, an integer.
\<close>

record media =
  maxWidth :: string
  maxHeight :: string

definition resizeMedia :: "int \<Rightarrow> media list \<Rightarrow> media list" where
  "resizeMedia screenWidth mediaElements =
     map (\<lambda>media.
            if screenWidth < 768 then media\<lparr>maxWidth := ''85%'', maxHeight := ''50vh''\<rparr>
            else if screenWidth < 1200 then media\<lparr>maxWidth := ''75%'', maxHeight := ''55vh''\<rparr>
            else media\<lparr>maxWidth := ''95%'', maxHeight := ''75vh''\<rparr>)
       mediaElements"

section \<open>Shooting stars (script.js, lines 304-317)\<close>

text \<open>
  The fields of a \<open>Star\<close>. They hold finite doubles, modelled by the rationals they
  denote. Unlike the comparisons of the earlier sections, \<open>+\<close>, \<open>*\<close> and \<open>/\<close> round
  their exact result to a double: the rounding is the parameter \<open>rnd\<close> of the functions
  below, applied to the exact result of every arithmetic operation and to the decimal
  literals \<open>0.3\<close>, \<open>0.6\<close> and \<open>0.4\<close>, which are not doubles (the integer literals
  are). \<open>canvas.width\<close> and \<open>canvas.height\<close> are unsigned integers.
\<close>

record star =
  star_x :: rat
  star_y :: rat
  star_length :: rat
  star_speed :: rat
  star_opacity :: rat

text \<open>
  The values that the five calls of \<open>Math.random()\<close> in \<open>reset()\<close> return, in the order
  of the calls.
\<close>

record draws =
  draw_x :: rat
  draw_y :: rat
  draw_length :: rat
  draw_speed :: rat
  draw_opacity :: rat

text \<open>\<open>reset()\<close>, lines 306-312; \<open>Math.random() * canvas.height / 2\<close> multiplies first.\<close>

definition reset :: "(rat \<Rightarrow> rat) \<Rightarrow> nat \<Rightarrow> nat \<Rightarrow> draws \<Rightarrow> star \<Rightarrow> star" where
  "reset rnd width height d s =
     s\<lparr>star_x := rnd (draw_x d * of_nat width),
       star_y := rnd (rnd (draw_y d * of_nat height) / 2),
       star_length := rnd (rnd (draw_length d * 100) + 50),
       star_speed := rnd (rnd (draw_speed d * 6) + 4),
       star_opacity := rnd (rnd (draw_opacity d * rnd (6 / 10)) + rnd (4 / 10))\<rparr>"

text \<open>\<open>update()\<close>, lines 313-317.\<close>

definition update :: "(rat \<Rightarrow> rat) \<Rightarrow> nat \<Rightarrow> nat \<Rightarrow> draws \<Rightarrow> star \<Rightarrow> star" where
  "update rnd width height d s =
     (let s1 = s\<lparr>star_x := rnd (star_x s + star_speed s)\<rparr>;
          s2 = s1\<lparr>star_y := rnd (star_y s1 + rnd (star_speed s1 * rnd (3 / 10)))\<rparr>
      in if star_x s2 > of_nat width \<or> star_y s2 > of_nat height
         then reset rnd width height d s2 else s2)"

section \<open>Properties of the scroll navigation\<close>

lemma goTo_nonempty:
  assumes "sections s \<noteq> []"
  shows "goTo index s =
           Inr (s\<lparr>scrolled := scrolled s
                     @ [sections s ! nat (spec_clamp (length (sections s)) index)],
                   currentIndex := spec_clamp (length (sections s)) index\<rparr>)"
proof -
  from assms have pos: "0 < length (sections s)" by simp
  then show ?thesis
    unfolding goTo_def spec_clamp_def Let_def using assms
    by (auto simp: min_def max_def)
qed


lemma goTo_empty: "sections s = [] \<Longrightarrow> goTo index s = Inr s"
  by (simp add: goTo_def)

lemma nav_dispatch_empty: "sections s = [] \<Longrightarrow> nav_dispatch ev s = Inr s"
  by (cases ev) (simp_all add: keydown_def goTo_empty)

lemma nav_run_empty: "sections s = [] \<Longrightarrow> nav_run evs s = Inr s"
  by (induction evs) (simp_all add: nav_dispatch_empty)



text \<open>
  Claim C10. On a non-empty section list, a second \<open>goTo(i)\<close> right after the first
  leaves \<open>currentIndex\<close> where the first put it, at \<open>min(max(i, 0), count - 1)\<close>; and
  \<open>goTo(i)\<close> from any other state with as many sections ends at the same index,
  whatever \<open>currentIndex\<close> was before.
\<close>

theorem goTo_idempotent:
  assumes "sections s \<noteq> []"
  shows "\<exists>s1 s2. goTo i s = Inr s1 \<and> goTo i s1 = Inr s2
           \<and> currentIndex s2 = currentIndex s1
           \<and> currentIndex s1 = min (max i 0) (int (length (sections s)) - 1)
           \<and> (\<forall>t. length (sections t) = length (sections s) \<longrightarrow>
                 (\<exists>t1. goTo i t = Inr t1 \<and> currentIndex t1 = currentIndex s1))"
proof -
  let ?c = "spec_clamp (length (sections s)) i"
  let ?s1 = "s\<lparr>scrolled := scrolled s @ [sections s ! nat ?c], currentIndex := ?c\<rparr>"
  have 1: "goTo i s = Inr ?s1" using assms by (rule goTo_nonempty)
  have ne1: "sections ?s1 \<noteq> []" using assms by simp
  have 2: "goTo i ?s1 = Inr (?s1\<lparr>scrolled := scrolled ?s1 @ [sections ?s1 ! nat ?c],
             currentIndex := ?c\<rparr>)"
    using goTo_nonempty [OF ne1, of i] by simp
  have 3: "\<forall>t. length (sections t) = length (sections s) \<longrightarrow>
                 (\<exists>t1. goTo i t = Inr t1 \<and> currentIndex t1 = ?c)"
  proof (intro allI impI)
    fix t :: nav assume l: "length (sections t) = length (sections s)"
    with assms have "sections t \<noteq> []" by auto
    from goTo_nonempty [OF this, of i] l
    show "\<exists>t1. goTo i t = Inr t1 \<and> currentIndex t1 = ?c" by simp
  qed
  show ?thesis
    apply (rule exI [of _ ?s1])
    apply (rule exI [of _ "?s1\<lparr>scrolled := scrolled ?s1 @ [sections ?s1 ! nat ?c],
             currentIndex := ?c\<rparr>"])
    using 1 2 3 by (simp add: spec_clamp_def)
qed

theorem goTo_idempotent_witness:
  "\<exists>s1 s2. goTo (- 4) \<lparr>sections = [10, 11, 12], nextBtn = True, prevBtn = True,
                currentIndex = 2, obs = Some [10, 11, 12], scrolled = [], console = []\<rparr>
              = Inr s1
     \<and> goTo (- 4) s1 = Inr s2 \<and> currentIndex s2 = currentIndex s1 \<and> currentIndex s1 = 0"
proof -
  from goTo_idempotent [of "\<lparr>sections = [10, 11, 12], nextBtn = True, prevBtn = True,
      currentIndex = 2, obs = Some [10, 11, 12], scrolled = [], console = []\<rparr>" "- 4"]
  obtain s1 s2 where
    "goTo (- 4) \<lparr>sections = [10, 11, 12], nextBtn = True, prevBtn = True,
        currentIndex = 2, obs = Some [10, 11, 12], scrolled = [], console = []\<rparr> = Inr s1"
    "goTo (- 4) s1 = Inr s2" "currentIndex s2 = currentIndex s1" "currentIndex s1 = 0"
    by auto
  then show ?thesis by blast
qed

text \<open>
  Claim C7. With no \<open>.section\<close> element, the navigation block initialises without a
  failing operation (no observer is created), \<open>console.warn\<close> has been called exactly
  once, and every sequence of button clicks and key presses runs without an exception and
  leaves the whole navigation state, \<open>currentIndex\<close> and the console included, as
  initialisation left it.
\<close>

theorem nav_no_sections:
  "nav_run evs (init_nav [] nb pb) = Inr (init_nav [] nb pb)
   \<and> nav_dispatch ev (init_nav [] nb pb) = Inr (init_nav [] nb pb)
   \<and> console (init_nav [] nb pb) = [''No .section elements found.'']
   \<and> length (console (init_nav [] nb pb)) = 1
   \<and> currentIndex (init_nav [] nb pb) = 0
   \<and> obs (init_nav [] nb pb) = None"
proof -
  have e: "sections (init_nav [] nb pb) = []" by (simp add: init_nav_def)
  show ?thesis
    using nav_run_empty [OF e] nav_dispatch_empty [OF e]
    by (simp add: init_nav_def)
qed

theorem nav_no_sections_witness:
  "nav_run [ClickNext, KeyDown ''PageUp'', ClickPrev, KeyDown ''ArrowDown'']
     (init_nav [] True True)
   = Inr \<lparr>sections = [], nextBtn = True, prevBtn = True, currentIndex = 0,
          obs = None, scrolled = [], console = [''No .section elements found.'']\<rparr>"
  using nav_no_sections [of "[ClickNext, KeyDown ''PageUp'', ClickPrev, KeyDown ''ArrowDown'']"
      True True ClickNext]
  by (simp add: init_nav_def del: nav_run.simps nav_dispatch.simps)

section \<open>Properties of the video listeners\<close>








lemma videoIO_length: "length (videoIO entries videos) = length videos"
  by (induction entries videos rule: videoIO.induct) simp_all

lemma videoIO_append:
  "videoIO (es @ es') videos = videoIO es' (videoIO es videos)"
  by (induction es videos rule: videoIO.induct) simp_all

lemma videoIO_last:
  "videoIO (es @ [(e, oc)]) videos =
     (if target e < length videos
      then (videoIO es videos)[target e :=
             videoIO_entry oc (isIntersecting e) (intersectionRatio e)
               (videoIO es videos ! target e)]
      else videoIO es videos)"
  by (simp add: videoIO_append videoIO_length)

text \<open>
  Claim C5, as amended. Take any entry \<open>e\<close> of a batch given to the \<open>videoIO\<close> callback,
  \<open>before\<close> being its target when the callback reaches the entry and \<open>after\<close> the
  target once the entry is done. No other video is touched by the entry. When the entry is
  intersecting with a ratio above 0.5, \<open>play()\<close> is called once and \<open>pause()\<close> is not;
  if the play promise is fulfilled the overlay (when there is one) gets display \<open>none\<close>
  and the video is playing; if it is rejected the overlay gets display \<open>block\<close>, and the
  video is paused as before when the call was refused at once, but not paused when the call
  had been accepted and was rejected later. Otherwise (not intersecting, or ratio at most
  0.5) the video is paused, \<open>pause()\<close> having been called exactly when the video was not
  paused already, and \<open>play()\<close> is not called.
\<close>

theorem videoIO_notification:
  assumes "before = videoIO es videos ! target e"
    and "after = videoIO (es @ [(e, oc)]) videos ! target e"
  shows "length (videoIO (es @ [(e, oc)]) videos) = length videos
   \<and> (\<forall>j < length videos. j \<noteq> target e \<longrightarrow>
         videoIO (es @ [(e, oc)]) videos ! j = videoIO es videos ! j)
   \<and> (target e < length videos \<longrightarrow>
        (isIntersecting e \<and> intersectionRatio e > 1 / 2 \<longrightarrow>
           v_playCalls after = Suc (v_playCalls before)
           \<and> v_pauseCalls after = v_pauseCalls before
           \<and> (oc = Fulfilled \<longrightarrow>
                 v_overlay after = map_option (\<lambda>_. ''none'') (v_overlay before)
                 \<and> \<not> v_paused after)
           \<and> (oc \<noteq> Fulfilled \<longrightarrow>
                 v_overlay after = map_option (\<lambda>_. ''block'') (v_overlay before))
           \<and> (oc = Rejected \<longrightarrow> v_paused after = v_paused before)
           \<and> (oc = Failed \<longrightarrow> \<not> v_paused after))
        \<and> (\<not> isIntersecting e \<or> intersectionRatio e \<le> 1 / 2 \<longrightarrow>
             v_paused after
             \<and> after = (if v_paused before then before else v_pause before)
             \<and> v_pauseCalls after
                  = (if v_paused before then v_pauseCalls before
                     else Suc (v_pauseCalls before))
             \<and> v_playCalls after = v_playCalls before
             \<and> v_overlay after = v_overlay before))"
proof -
  have len: "length (videoIO es videos) = length videos" by (rule videoIO_length)
  have 1: "length (videoIO (es @ [(e, oc)]) videos) = length videos"
    by (rule videoIO_length)
  have 2: "\<forall>j < length videos. j \<noteq> target e \<longrightarrow>
         videoIO (es @ [(e, oc)]) videos ! j = videoIO es videos ! j"
    by (simp add: videoIO_last len)
  have 3: "target e < length videos \<Longrightarrow>
      after = videoIO_entry oc (isIntersecting e) (intersectionRatio e) before"
    using assms by (simp add: videoIO_last len)
  have 4: "target e < length videos \<longrightarrow>
        (isIntersecting e \<and> intersectionRatio e > 1 / 2 \<longrightarrow>
           v_playCalls after = Suc (v_playCalls before)
           \<and> v_pauseCalls after = v_pauseCalls before
           \<and> (oc = Fulfilled \<longrightarrow>
                 v_overlay after = map_option (\<lambda>_. ''none'') (v_overlay before)
                 \<and> \<not> v_paused after)
           \<and> (oc \<noteq> Fulfilled \<longrightarrow>
                 v_overlay after = map_option (\<lambda>_. ''block'') (v_overlay before))
           \<and> (oc = Rejected \<longrightarrow> v_paused after = v_paused before)
           \<and> (oc = Failed \<longrightarrow> \<not> v_paused after))
        \<and> (\<not> isIntersecting e \<or> intersectionRatio e \<le> 1 / 2 \<longrightarrow>
             v_paused after
             \<and> after = (if v_paused before then before else v_pause before)
             \<and> v_pauseCalls after
                  = (if v_paused before then v_pauseCalls before
                     else Suc (v_pauseCalls before))
             \<and> v_playCalls after = v_playCalls before
             \<and> v_overlay after = v_overlay before)"
  proof
    assume "target e < length videos"
    from 3 [OF this] show "(isIntersecting e \<and> intersectionRatio e > 1 / 2 \<longrightarrow>
           v_playCalls after = Suc (v_playCalls before)
           \<and> v_pauseCalls after = v_pauseCalls before
           \<and> (oc = Fulfilled \<longrightarrow>
                 v_overlay after = map_option (\<lambda>_. ''none'') (v_overlay before)
                 \<and> \<not> v_paused after)
           \<and> (oc \<noteq> Fulfilled \<longrightarrow>
                 v_overlay after = map_option (\<lambda>_. ''block'') (v_overlay before))
           \<and> (oc = Rejected \<longrightarrow> v_paused after = v_paused before)
           \<and> (oc = Failed \<longrightarrow> \<not> v_paused after))
        \<and> (\<not> isIntersecting e \<or> intersectionRatio e \<le> 1 / 2 \<longrightarrow>
             v_paused after
             \<and> after = (if v_paused before then before else v_pause before)
             \<and> v_pauseCalls after
                  = (if v_paused before then v_pauseCalls before
                     else Suc (v_pauseCalls before))
             \<and> v_playCalls after = v_playCalls before
             \<and> v_overlay after = v_overlay before)"
      by (cases oc) (auto simp: videoIO_entry_def v_play_def v_pause_def set_overlay_def)
  qed
  from 1 2 4 show ?thesis by blast
qed

theorem videoIO_notification_witness:
  "videoIO
     [(\<lparr>target = 1, isIntersecting = False, intersectionRatio = 1 / 4\<rparr>, Fulfilled),
      (\<lparr>target = 0, isIntersecting = True, intersectionRatio = 3 / 4\<rparr>, Rejected)]
     [\<lparr>v_paused = True, v_overlay = Some [], v_playCalls = 0, v_pauseCalls = 0\<rparr>,
      \<lparr>v_paused = False, v_overlay = Some ''none'', v_playCalls = 1, v_pauseCalls = 0\<rparr>]
   = [\<lparr>v_paused = True, v_overlay = Some ''block'', v_playCalls = 1, v_pauseCalls = 0\<rparr>,
      \<lparr>v_paused = True, v_overlay = Some ''none'', v_playCalls = 1, v_pauseCalls = 1\<rparr>]"
  using videoIO_notification [of
     "\<lparr>v_paused = True, v_overlay = Some [], v_playCalls = 0, v_pauseCalls = 0\<rparr>"
     "[(\<lparr>target = 1, isIntersecting = False, intersectionRatio = 1 / 4\<rparr>, Fulfilled)]"
     "[\<lparr>v_paused = True, v_overlay = Some [], v_playCalls = 0, v_pauseCalls = 0\<rparr>,
       \<lparr>v_paused = False, v_overlay = Some ''none'', v_playCalls = 1, v_pauseCalls = 0\<rparr>]"
     "\<lparr>target = 0, isIntersecting = True, intersectionRatio = 3 / 4\<rparr>"
     "\<lparr>v_paused = True, v_overlay = Some ''block'', v_playCalls = 1, v_pauseCalls = 0\<rparr>"
     Rejected]
  by (simp add: videoIO_entry_def v_play_def v_pause_def set_overlay_def)

text \<open>
  Claim C5, as stated, fails for a play promise that is rejected after the call was
  accepted, as it is when the video's source cannot be loaded: the paused video of the
  entry gets its overlay shown and is not paused, since the accepted call cleared
  \<open>paused\<close> and the \<open>catch\<close> callback of line 145 only shows the overlay.
\<close>

theorem videoIO_failed_play_counterexample:
  "videoIO [(\<lparr>target = 0, isIntersecting = True, intersectionRatio = 3 / 4\<rparr>, Failed)]
     [\<lparr>v_paused = True, v_overlay = Some [], v_playCalls = 0, v_pauseCalls = 0\<rparr>]
   = [\<lparr>v_paused = False, v_overlay = Some ''block'', v_playCalls = 1, v_pauseCalls = 0\<rparr>]"
  by (simp add: videoIO_entry_def v_play_def set_overlay_def)

section \<open>Properties of the media resizer\<close>

text \<open>
  Claim C6. \<open>resizeMedia\<close> gives every matched element the same pair, chosen by the
  viewport width alone: below 768 \<open>85%\<close> and \<open>50vh\<close>, from 768 and below 1200 \<open>75%\<close>
  and \<open>55vh\<close>, from 1200 \<open>95%\<close> and \<open>75vh\<close>; so 500 gives \<open>85%\<close>, 900 gives
  \<open>75%\<close> and 1400 gives \<open>95%\<close>. A call overwrites what an earlier call wrote: the
  result does not depend on the width of the call before.
\<close>

theorem resizeMedia_bands:
  "length (resizeMedia w ms) = length ms
   \<and> (\<forall>m \<in> set (resizeMedia w ms).
        (w < 768 \<longrightarrow> maxWidth m = ''85%'' \<and> maxHeight m = ''50vh'')
        \<and> (768 \<le> w \<and> w < 1200 \<longrightarrow> maxWidth m = ''75%'' \<and> maxHeight m = ''55vh'')
        \<and> (1200 \<le> w \<longrightarrow> maxWidth m = ''95%'' \<and> maxHeight m = ''75vh''))
   \<and> (\<forall>m \<in> set (resizeMedia 500 ms). maxWidth m = ''85%'')
   \<and> (\<forall>m \<in> set (resizeMedia 900 ms). maxWidth m = ''75%'')
   \<and> (\<forall>m \<in> set (resizeMedia 1400 ms). maxWidth m = ''95%'')
   \<and> resizeMedia w (resizeMedia w' ms) = resizeMedia w ms"
  by (auto simp: resizeMedia_def)

theorem resizeMedia_bands_witness:
  "resizeMedia 500 [\<lparr>maxWidth = [], maxHeight = []\<rparr>, \<lparr>maxWidth = ''95%'', maxHeight = ''75vh''\<rparr>]
     = [\<lparr>maxWidth = ''85%'', maxHeight = ''50vh''\<rparr>, \<lparr>maxWidth = ''85%'', maxHeight = ''50vh''\<rparr>]
   \<and> resizeMedia 900 [\<lparr>maxWidth = [], maxHeight = []\<rparr>]
     = [\<lparr>maxWidth = ''75%'', maxHeight = ''55vh''\<rparr>]
   \<and> resizeMedia 1400 [\<lparr>maxWidth = [], maxHeight = []\<rparr>]
     = [\<lparr>maxWidth = ''95%'', maxHeight = ''75vh''\<rparr>]"
  using resizeMedia_bands [of 500
      "[\<lparr>maxWidth = [], maxHeight = []\<rparr>, \<lparr>maxWidth = ''95%'', maxHeight = ''75vh''\<rparr>]" 900]
  by (simp add: resizeMedia_def)

section \<open>Properties of the audio controls\<close>

lemma clamp_js:
  assumes "v \<noteq> NaN"
  shows "\<exists>r. Math_min (Fin 1) (Math_max (Fin 0) v) = Fin r \<and> 0 \<le> r \<and> r \<le> 1
           \<and> (\<forall>x. v = Fin x \<longrightarrow> r = spec_clamp01 x)
           \<and> (v = PosInf \<longrightarrow> r = 1) \<and> (v = NegInf \<longrightarrow> r = 0)"
  using assms
  by (cases v) (auto simp: Math_min_def Math_max_def spec_clamp01_def min_def max_def)

text \<open>
  Claim C3. For an input event of the volume slider with value string \<open>str\<close>, on a page
  that has the audio element: when \<open>parseFloat\<close> gives NaN the state, and so the volume,
  is unchanged; when it gives a number the volume setter is reached with
  \<open>Math.min(1, Math.max(0, v))\<close>, which lies in \<open>[0, 1]\<close>, so the setter does not throw
  and the volume becomes that value: \<open>min 1 (max 0 x)\<close> for a finite \<open>x\<close>, 1 for
  \<open>Infinity\<close> and 0 for \<open>-Infinity\<close>.
\<close>

theorem volume_input_clamps:
  assumes "volumeSlider s" and "audio s = Some a"
  shows "(parseFloat str = NaN \<longrightarrow> volume_input parseFloat str s = Inr s)
       \<and> (parseFloat str \<noteq> NaN \<longrightarrow>
            (\<exists>r. Math_min (Fin 1) (Math_max (Fin 0) (parseFloat str)) = Fin r
               \<and> 0 \<le> r \<and> r \<le> 1
               \<and> volume_input parseFloat str s = Inr (s\<lparr>audio := Some (a\<lparr>volume := r\<rparr>)\<rparr>)
               \<and> (\<forall>x. parseFloat str = Fin x \<longrightarrow> r = spec_clamp01 x)
               \<and> (parseFloat str = PosInf \<longrightarrow> r = 1)
               \<and> (parseFloat str = NegInf \<longrightarrow> r = 0)))"
proof (intro conjI impI)
  assume "parseFloat str = NaN"
  then show "volume_input parseFloat str s = Inr s"
    using assms by (simp add: volume_input_def Number_isNaN_def)
next
  assume n: "parseFloat str \<noteq> NaN"
  from clamp_js [OF n] obtain r where
    r: "Math_min (Fin 1) (Math_max (Fin 0) (parseFloat str)) = Fin r" "0 \<le> r" "r \<le> 1"
       "\<forall>x. parseFloat str = Fin x \<longrightarrow> r = spec_clamp01 x"
       "parseFloat str = PosInf \<longrightarrow> r = 1" "parseFloat str = NegInf \<longrightarrow> r = 0"
    by blast
  have "volume_input parseFloat str s = Inr (s\<lparr>audio := Some (a\<lparr>volume := r\<rparr>)\<rparr>)"
    using assms n r(1,2,3) by (simp add: volume_input_def Number_isNaN_def)
  with r show "\<exists>r. Math_min (Fin 1) (Math_max (Fin 0) (parseFloat str)) = Fin r
               \<and> 0 \<le> r \<and> r \<le> 1
               \<and> volume_input parseFloat str s = Inr (s\<lparr>audio := Some (a\<lparr>volume := r\<rparr>)\<rparr>)
               \<and> (\<forall>x. parseFloat str = Fin x \<longrightarrow> r = spec_clamp01 x)
               \<and> (parseFloat str = PosInf \<longrightarrow> r = 1)
               \<and> (parseFloat str = NegInf \<longrightarrow> r = 0)"
    by blast
qed

theorem volume_input_clamps_witness:
  "volume_input (\<lambda>str. if str = ''1.5'' then Fin (3 / 2) else NaN) ''1.5''
     (init_actl (Some \<lparr>volume = 1, a_paused = True, a_playCalls = 0, a_pauseCalls = 0\<rparr>)
        None None True)
   = Inr \<lparr>audio = Some \<lparr>volume = 1, a_paused = True, a_playCalls = 0, a_pauseCalls = 0\<rparr>,
          audioPlayBtn = None, musicToggle = None, volumeSlider = True,
          musicPlaying = False, clickOnce = True, touchOnce = True\<rparr>
   \<and> volume_input (\<lambda>str. if str = ''1.5'' then Fin (3 / 2) else NaN) ''abc''
     (init_actl (Some \<lparr>volume = 1, a_paused = True, a_playCalls = 0, a_pauseCalls = 0\<rparr>)
        None None True)
   = Inr \<lparr>audio = Some \<lparr>volume = 1 / 2, a_paused = True, a_playCalls = 0, a_pauseCalls = 0\<rparr>,
          audioPlayBtn = None, musicToggle = None, volumeSlider = True,
          musicPlaying = False, clickOnce = True, touchOnce = True\<rparr>"
  using volume_input_clamps [of
      "init_actl (Some \<lparr>volume = 1, a_paused = True, a_playCalls = 0, a_pauseCalls = 0\<rparr>)
        None None True"
      "\<lparr>volume = 1 / 2, a_paused = True, a_playCalls = 0, a_pauseCalls = 0\<rparr>"
      "\<lambda>str. if str = ''1.5'' then Fin (3 / 2) else NaN" "''1.5''"]
    volume_input_clamps [of
      "init_actl (Some \<lparr>volume = 1, a_paused = True, a_playCalls = 0, a_pauseCalls = 0\<rparr>)
        None None True"
      "\<lparr>volume = 1 / 2, a_paused = True, a_playCalls = 0, a_pauseCalls = 0\<rparr>"
      "\<lambda>str. if str = ''1.5'' then Fin (3 / 2) else NaN" "''abc''"]
  by (simp add: init_actl_def Math_min_def Math_max_def)

lemmas tryAutoplayAudio_defs =
  tryAutoplayAudio_def tryAutoplayAudio_settle_def tryAutoplayAudio_then_def
  tryAutoplayAudio_catch_def

lemma tryAutoplayAudio_clickOnce: "clickOnce (tryAutoplayAudio oc s) = clickOnce s"
  by (cases "audio s"; cases oc) (simp_all add: tryAutoplayAudio_defs)

lemma tryAutoplayAudio_touchOnce: "touchOnce (tryAutoplayAudio oc s) = touchOnce s"
  by (cases "audio s"; cases oc) (simp_all add: tryAutoplayAudio_defs)

lemma tryAutoplayAudio_attempts:
  "audio s \<noteq> None \<Longrightarrow> playAttempts (tryAutoplayAudio oc s) = Suc (playAttempts s)"
  by (cases "audio s"; cases oc)
    (simp_all add: tryAutoplayAudio_defs playAttempts_def a_play_def)

lemma tryAutoplayAudio_audio: "(audio (tryAutoplayAudio oc s) = None) = (audio s = None)"
  by (cases "audio s"; cases oc) (simp_all add: tryAutoplayAudio_defs)

lemmas tryAutoplayAudio_facts =
  tryAutoplayAudio_clickOnce tryAutoplayAudio_touchOnce tryAutoplayAudio_attempts
  tryAutoplayAudio_audio

lemma playAttempts_upd [simp]:
  "playAttempts (s\<lparr>clickOnce := b\<rparr>) = playAttempts s"
  "playAttempts (s\<lparr>touchOnce := b\<rparr>) = playAttempts s"
  by (simp_all add: playAttempts_def)

lemma doc_dispatch_clickOnce:
  "clickOnce (doc_dispatch (ev, oc) s) = (clickOnce s \<and> ev \<noteq> Click)"
  by (cases ev) (simp_all add: tryAutoplayAudio_facts)

lemma doc_dispatch_touchOnce:
  "touchOnce (doc_dispatch (ev, oc) s) = (touchOnce s \<and> ev \<noteq> Touchstart)"
  by (cases ev) (simp_all add: tryAutoplayAudio_facts)

lemma doc_dispatch_audio: "(audio (doc_dispatch (ev, oc) s) = None) = (audio s = None)"
  by (cases ev) (simp_all add: tryAutoplayAudio_facts)

lemma doc_dispatch_attempts:
  "audio s \<noteq> None \<Longrightarrow> playAttempts (doc_dispatch (ev, oc) s) =
     playAttempts s + (if (ev = Click \<and> clickOnce s) \<or> (ev = Touchstart \<and> touchOnce s)
                       then 1 else 0)"
  by (cases ev) (simp_all add: tryAutoplayAudio_facts)

lemmas doc_dispatch_facts =
  doc_dispatch_clickOnce doc_dispatch_touchOnce doc_dispatch_audio doc_dispatch_attempts

lemma doc_run_facts:
  assumes "audio s \<noteq> None"
  shows "playAttempts (doc_run evs s) =
           playAttempts s
           + (if clickOnce s \<and> Click \<in> fst ` set evs then 1 else 0)
           + (if touchOnce s \<and> Touchstart \<in> fst ` set evs then 1 else 0)
         \<and> clickOnce (doc_run evs s) = (clickOnce s \<and> Click \<notin> fst ` set evs)
         \<and> touchOnce (doc_run evs s) = (touchOnce s \<and> Touchstart \<notin> fst ` set evs)"
  using assms
proof (induction evs arbitrary: s)
  case Nil
  then show ?case by simp
next
  case (Cons e evs)
  obtain ev oc where e: "e = (ev, oc)" by (cases e)
  have ne: "audio (doc_dispatch (ev, oc) s) \<noteq> None"
    using Cons.prems by (simp add: doc_dispatch_audio)
  from Cons.IH [OF ne] Cons.prems show ?case
    unfolding e by (cases ev) (auto simp: doc_dispatch_facts simp del: doc_dispatch.simps)
qed

text \<open>
  Claim C8, as amended. On a page that has the audio element, with both \<open>once\<close>
  listeners registered, any sequence of document clicks and touches calls \<open>play()\<close>
  through \<open>tryAutoplayAudio\<close> once for the first click and once for the first
  \<open>touchstart\<close>: at most twice in all, whatever the play promises do. Each listener is
  gone after the first event of its own type and stays registered until then.
\<close>

theorem autoplay_once_per_event_type:
  assumes "audio s \<noteq> None" and "clickOnce s" and "touchOnce s"
  shows "playAttempts (doc_run evs s) =
           playAttempts s
           + (if Click \<in> fst ` set evs then 1 else 0)
           + (if Touchstart \<in> fst ` set evs then 1 else 0)
         \<and> playAttempts (doc_run evs s) \<le> playAttempts s + 2
         \<and> clickOnce (doc_run evs s) = (Click \<notin> fst ` set evs)
         \<and> touchOnce (doc_run evs s) = (Touchstart \<notin> fst ` set evs)"
  using doc_run_facts [OF assms(1), of evs] assms(2,3) by simp

theorem autoplay_once_per_event_type_witness:
  "playAttempts (doc_run [(Click, Rejected), (Click, Fulfilled), (Click, Fulfilled)]
       (init_actl (Some \<lparr>volume = 1, a_paused = True, a_playCalls = 0, a_pauseCalls = 0\<rparr>)
        None None False)) = 1
   \<and> touchOnce (doc_run [(Click, Rejected), (Click, Fulfilled), (Click, Fulfilled)]
       (init_actl (Some \<lparr>volume = 1, a_paused = True, a_playCalls = 0, a_pauseCalls = 0\<rparr>)
        None None False))"
  using autoplay_once_per_event_type [of
     "init_actl (Some \<lparr>volume = 1, a_paused = True, a_playCalls = 0, a_pauseCalls = 0\<rparr>)
        None None False" "[(Click, Rejected), (Click, Fulfilled), (Click, Fulfilled)]"]
  by (simp add: init_actl_def playAttempts_def)

text \<open>
  Claim C8, as stated, fails for a touch followed by a click (what a tap on a touch screen
  dispatches): no \<open>play()\<close> call has been made after initialisation, and two have been
  made after the two events.
\<close>

theorem autoplay_twice_counterexample:
  "playAttempts
     (init_actl (Some \<lparr>volume = 1, a_paused = True, a_playCalls = 0, a_pauseCalls = 0\<rparr>)
        None None False) = 0
   \<and> playAttempts (doc_run [(Touchstart, Rejected), (Click, Fulfilled)]
       (init_actl (Some \<lparr>volume = 1, a_paused = True, a_playCalls = 0, a_pauseCalls = 0\<rparr>)
        None None False)) = 2"
  by (simp add: init_actl_def playAttempts_def tryAutoplayAudio_defs a_play_def)

lemma tryAutoplayAudio_catch_commutes:
  "tryAutoplayAudio_catch (musicToggle_click oc s)
     = musicToggle_click oc (tryAutoplayAudio_catch s)"
  by (cases "audio s"; cases "musicToggle s")
    (simp_all add: tryAutoplayAudio_catch_def musicToggle_click_def Let_def)




section \<open>Properties of the shooting stars\<close>

lemma rel_err_bounds:
  fixes a r u :: rat
  assumes e: "\<bar>r - a\<bar> \<le> u * a" and a0: "0 \<le> a" and u0: "0 \<le> u" and u1: "u \<le> 1"
  shows "0 \<le> r" and "r \<le> (1 + u) * a"
proof -
  from e have "a - r \<le> u * a" and "r - a \<le> u * a" by linarith+
  then have lo: "(1 - u) * a \<le> r" and hi: "r \<le> (1 + u) * a" by (simp_all add: algebra_simps)
  from u1 a0 have "0 \<le> (1 - u) * a" by simp
  with lo show "0 \<le> r" by linarith
  from hi show "r \<le> (1 + u) * a" .
qed

lemma product_below:
  fixes r u w p :: rat
  assumes e: "\<bar>p - r * w\<bar> \<le> u * (r * w)"
    and r0: "0 \<le> r" and r1: "r < 1" and ru: "r \<le> 1 - u"
    and u0: "0 \<le> u" and u1: "u \<le> 1" and w: "0 < w"
  shows "0 \<le> p \<and> p < w"
proof -
  have a0: "0 \<le> r * w" using r0 w by simp
  from rel_err_bounds [OF e a0 u0 u1]
  have p0: "0 \<le> p" and hi: "p \<le> (1 + u) * (r * w)" by simp_all
  have "(1 + u) * r < 1"
  proof (cases "u = 0")
    case True
    with r1 show ?thesis by simp
  next
    case False
    with u0 have up: "0 < u" by simp
    have "(1 + u) * r \<le> (1 + u) * (1 - u)" using ru u0 by (intro mult_left_mono) simp_all
    also have "\<dots> = 1 - u * u" by (simp add: algebra_simps)
    also have "\<dots> < 1" using up by simp
    finally show ?thesis .
  qed
  then have "(1 + u) * r * w < 1 * w" using w by (intro mult_strict_right_mono) simp_all
  with hi have "p < w" by (simp add: mult.assoc)
  with p0 show ?thesis by simp
qed

text \<open>
  Claim C4, as amended. One call of \<open>update()\<close> adds \<open>speed\<close> to \<open>x\<close> and
  \<open>speed * 0.3\<close> to \<open>y\<close>, in double arithmetic: \<open>x1\<close> and \<open>y1\<close> below. If then
  \<open>x1 > width\<close> or \<open>y1 > height\<close>, the same call resets the streak: every field is
  overwritten by a value computed from a fresh draw, \<open>x\<close> by \<open>Math.random() * width\<close>
  and \<open>y\<close> by \<open>Math.random() * height / 2\<close>; \<open>x\<close> then lies in \<open>[0, width)\<close> when
  \<open>width > 0\<close> and is 0 when \<open>width = 0\<close>, and \<open>y\<close> lies in \<open>[0, height / 2)\<close> when
  \<open>height > 0\<close> and is 0 when \<open>height = 0\<close>. Otherwise the streak keeps the advanced
  position, which is within the canvas. So after \<open>update()\<close> the position is the
  advanced one or the one drawn by the reset.

  The hypotheses are what the theorem needs of the platform, with \<open>u\<close> for the unit
  roundoff (2 to the power -53 for doubles): a draw is a double in \<open>[0, 1)\<close>, hence at most
  \<open>1 - u\<close>; the two products of a draw and a canvas side are rounded with a relative
  error of at most \<open>u\<close>; and halving the rounded product is exact.
\<close>

theorem update_advances_or_resets:
  fixes u x1 y1 :: rat
  assumes u: "0 \<le> u" "u \<le> 1"
    and dx: "0 \<le> draw_x d" "draw_x d < 1" "draw_x d \<le> 1 - u"
    and dy: "0 \<le> draw_y d" "draw_y d < 1" "draw_y d \<le> 1 - u"
    and ex: "\<bar>rnd (draw_x d * of_nat width) - draw_x d * of_nat width\<bar>
               \<le> u * (draw_x d * of_nat width)"
    and ey: "\<bar>rnd (draw_y d * of_nat height) - draw_y d * of_nat height\<bar>
               \<le> u * (draw_y d * of_nat height)"
    and half: "rnd (rnd (draw_y d * of_nat height) / 2) = rnd (draw_y d * of_nat height) / 2"
    and x1: "x1 = rnd (star_x s + star_speed s)"
    and y1: "y1 = rnd (star_y s + rnd (star_speed s * rnd (3 / 10)))"
  shows "(\<not> (x1 > of_nat width \<or> y1 > of_nat height) \<longrightarrow>
            update rnd width height d s = s\<lparr>star_x := x1, star_y := y1\<rparr>)
       \<and> (x1 > of_nat width \<or> y1 > of_nat height \<longrightarrow>
            update rnd width height d s =
              \<lparr>star_x = rnd (draw_x d * of_nat width),
               star_y = rnd (draw_y d * of_nat height) / 2,
               star_length = rnd (rnd (draw_length d * 100) + 50),
               star_speed = rnd (rnd (draw_speed d * 6) + 4),
               star_opacity = rnd (rnd (draw_opacity d * rnd (6 / 10)) + rnd (4 / 10))\<rparr>
            \<and> (0 < width \<longrightarrow>
                  0 \<le> star_x (update rnd width height d s)
                  \<and> star_x (update rnd width height d s) < of_nat width)
            \<and> (width = 0 \<longrightarrow> star_x (update rnd width height d s) = 0)
            \<and> (0 < height \<longrightarrow>
                  0 \<le> star_y (update rnd width height d s)
                  \<and> star_y (update rnd width height d s) < of_nat height / 2)
            \<and> (height = 0 \<longrightarrow> star_y (update rnd width height d s) = 0))
       \<and> ((star_x (update rnd width height d s) = x1
             \<and> star_y (update rnd width height d s) = y1
             \<and> x1 \<le> of_nat width \<and> y1 \<le> of_nat height)
           \<or> (star_x (update rnd width height d s) = rnd (draw_x d * of_nat width)
               \<and> star_y (update rnd width height d s) = rnd (draw_y d * of_nat height) / 2))"
proof -
  let ?U = "update rnd width height d s"
  let ?R = "\<lparr>star_x = rnd (draw_x d * of_nat width),
               star_y = rnd (draw_y d * of_nat height) / 2,
               star_length = rnd (rnd (draw_length d * 100) + 50),
               star_speed = rnd (rnd (draw_speed d * 6) + 4),
               star_opacity = rnd (rnd (draw_opacity d * rnd (6 / 10)) + rnd (4 / 10))\<rparr>"
  have stay: "\<not> (x1 > of_nat width \<or> y1 > of_nat height) \<Longrightarrow>
      ?U = s\<lparr>star_x := x1, star_y := y1\<rparr>"
    by (simp add: update_def Let_def x1 y1)
  have go: "x1 > of_nat width \<or> y1 > of_nat height \<Longrightarrow> ?U = ?R"
    unfolding update_def Let_def reset_def using half
    by (auto simp: x1 y1)
  have xpos: "0 < width \<Longrightarrow>
      0 \<le> rnd (draw_x d * of_nat width) \<and> rnd (draw_x d * of_nat width) < of_nat width"
    using product_below [OF ex dx u] by simp
  have ypos: "0 < height \<Longrightarrow>
      0 \<le> rnd (draw_y d * of_nat height) \<and> rnd (draw_y d * of_nat height) < of_nat height"
    using product_below [OF ey dy u] by simp
  have xzero: "width = 0 \<Longrightarrow> rnd (draw_x d * of_nat width) = 0"
    using ex by simp
  have yzero: "height = 0 \<Longrightarrow> rnd (draw_y d * of_nat height) = 0"
    using ey by simp
  show ?thesis
  proof (cases "x1 > of_nat width \<or> y1 > of_nat height")
    case True
    from go [OF True] have U: "?U = ?R" .
    have "star_x ?U = rnd (draw_x d * of_nat width)"
      and "star_y ?U = rnd (draw_y d * of_nat height) / 2"
      by (simp_all add: U)
    with True U xpos ypos xzero yzero show ?thesis by auto
  next
    case False
    from stay [OF False] have U: "?U = s\<lparr>star_x := x1, star_y := y1\<rparr>" .
    have "star_x ?U = x1" and "star_y ?U = y1" by (simp_all add: U)
    with False U show ?thesis by auto
  qed
qed

theorem update_advances_or_resets_witness:
  "update (\<lambda>a. a) 800 600
     \<lparr>draw_x = 1 / 2, draw_y = 1 / 4, draw_length = 1 / 2, draw_speed = 1 / 2,
      draw_opacity = 1 / 2\<rparr>
     \<lparr>star_x = 795, star_y = 100, star_length = 60, star_speed = 10, star_opacity = 1 / 2\<rparr>
   = \<lparr>star_x = 400, star_y = 75, star_length = 100, star_speed = 7, star_opacity = 7 / 10\<rparr>
   \<and> update (\<lambda>a. a) 800 600
     \<lparr>draw_x = 1 / 2, draw_y = 1 / 4, draw_length = 1 / 2, draw_speed = 1 / 2,
      draw_opacity = 1 / 2\<rparr>
     \<lparr>star_x = 100, star_y = 100, star_length = 60, star_speed = 10, star_opacity = 1 / 2\<rparr>
   = \<lparr>star_x = 110, star_y = 103, star_length = 60, star_speed = 10, star_opacity = 1 / 2\<rparr>"
  using update_advances_or_resets [of 0
      "\<lparr>draw_x = 1 / 2, draw_y = 1 / 4, draw_length = 1 / 2, draw_speed = 1 / 2,
        draw_opacity = 1 / 2\<rparr>" "\<lambda>a. a" 800 600 805
      "\<lparr>star_x = 795, star_y = 100, star_length = 60, star_speed = 10, star_opacity = 1 / 2\<rparr>"
      103]
    update_advances_or_resets [of 0
      "\<lparr>draw_x = 1 / 2, draw_y = 1 / 4, draw_length = 1 / 2, draw_speed = 1 / 2,
        draw_opacity = 1 / 2\<rparr>" "\<lambda>a. a" 800 600 110
      "\<lparr>star_x = 100, star_y = 100, star_length = 60, star_speed = 10, star_opacity = 1 / 2\<rparr>"
      103]
  by simp

text \<open>
  Claim C4, as stated, fails on a canvas of width 0 (a window whose \<open>innerWidth\<close> is 0):
  the advanced \<open>x\<close> is above the width, the streak is reset, and the new \<open>x\<close> is
  \<open>Math.random() * 0\<close>, which is 0 whatever the draw and without any rounding. That is
  neither in the empty range \<open>[0, 0)\<close> nor the advanced position.
\<close>

theorem update_zero_width_counterexample:
  "star_x (update (\<lambda>a. a) 0 600
     \<lparr>draw_x = 1 / 2, draw_y = 1 / 4, draw_length = 1 / 2, draw_speed = 1 / 2,
      draw_opacity = 1 / 2\<rparr>
     \<lparr>star_x = 0, star_y = 0, star_length = 50, star_speed = 4, star_opacity = 1 / 2\<rparr>) = 0
   \<and> \<not> (0 \<le> star_x (update (\<lambda>a. a) 0 600
     \<lparr>draw_x = 1 / 2, draw_y = 1 / 4, draw_length = 1 / 2, draw_speed = 1 / 2,
      draw_opacity = 1 / 2\<rparr>
     \<lparr>star_x = 0, star_y = 0, star_length = 50, star_speed = 4, star_opacity = 1 / 2\<rparr>)
       \<and> star_x (update (\<lambda>a. a) 0 600
     \<lparr>draw_x = 1 / 2, draw_y = 1 / 4, draw_length = 1 / 2, draw_speed = 1 / 2,
      draw_opacity = 1 / 2\<rparr>
     \<lparr>star_x = 0, star_y = 0, star_length = 50, star_speed = 4, star_opacity = 1 / 2\<rparr>)
          < of_nat 0)
   \<and> star_x (update (\<lambda>a. a) 0 600
     \<lparr>draw_x = 1 / 2, draw_y = 1 / 4, draw_length = 1 / 2, draw_speed = 1 / 2,
      draw_opacity = 1 / 2\<rparr>
     \<lparr>star_x = 0, star_y = 0, star_length = 50, star_speed = 4, star_opacity = 1 / 2\<rparr>)
       \<noteq> 0 + 4"
  by (simp add: update_def reset_def Let_def)

end
